theory Spec2Isabelle
  imports Main "HOL-Library.Sublist"
begin

text \<open>
  A shallow embedding of the registry server: the Express application that keeps the
  clients and their projects in the object \<^verbatim>\<open>clients\<close>, stores uploaded models through
  multer, moves the files of deleted projects to a backup folder, and resolves a client
  name and a project to a model. Every route handler is a function from the state (the
  registry and the two folders) and the request to the response and the new state. The
  clock, and whether a rename fails, are inputs. Line numbers are those of the source of
  that application. The second application of the repository, a page for uploading
  several files, keeps no state and is not modelled.
\<close>

section \<open>JavaScript strings\<close>

text \<open>
  Strings are modelled on their ASCII fragment: a \<^typ>\<open>char\<close> is one code unit below
  128. The classes are the ones of the regular expressions of the server:
  \<^verbatim>\<open>\s\<close> (tab, line feed, vertical tab, form feed, carriage return, space) and
  \<^verbatim>\<open>\w\<close> (letters, digits, underscore).
\<close>

definition is_space :: "char \<Rightarrow> bool" where
  "is_space c = (let n = (of_char c :: nat) in (9 \<le> n \<and> n \<le> 13) \<or> n = 32)"

definition is_digit :: "char \<Rightarrow> bool" where
  "is_digit c = (let n = (of_char c :: nat) in 48 \<le> n \<and> n \<le> 57)"

definition is_upper :: "char \<Rightarrow> bool" where
  "is_upper c = (let n = (of_char c :: nat) in 65 \<le> n \<and> n \<le> 90)"

definition is_lower :: "char \<Rightarrow> bool" where
  "is_lower c = (let n = (of_char c :: nat) in 97 \<le> n \<and> n \<le> 122)"

definition is_alnum :: "char \<Rightarrow> bool" where
  "is_alnum c = (is_digit c \<or> is_upper c \<or> is_lower c)"

definition is_word :: "char \<Rightarrow> bool" where
  "is_word c = (is_alnum c \<or> c = CHR ''_'')"

definition toLowerChar :: "char \<Rightarrow> char" where
  "toLowerChar c = (if is_upper c then char_of ((of_char c :: nat) + 32) else c)"

definition toUpperChar :: "char \<Rightarrow> char" where
  "toUpperChar c = (if is_lower c then char_of ((of_char c :: nat) - 32) else c)"

definition toLowerCase :: "string \<Rightarrow> string" where
  "toLowerCase s = map toLowerChar s"

text \<open>
  \<^verbatim>\<open>s.replace(/C+/g, r)\<close> for a character class \<open>C\<close>: scanning from the left, every
  maximal run of characters of the class is replaced by \<open>r\<close>.
\<close>

function replace_runs :: "(char \<Rightarrow> bool) \<Rightarrow> string \<Rightarrow> string \<Rightarrow> string" where
  "replace_runs P r [] = []"
| "replace_runs P r (c # cs) =
     (if P c then r @ replace_runs P r (dropWhile P cs) else c # replace_runs P r cs)"
  by pat_completeness auto
termination
proof (relation "measure (\<lambda>(P, r, cs). length cs)")
  show "wf (measure (\<lambda>(P :: char \<Rightarrow> bool, r :: string, cs :: string). length cs))"
    by simp
next
  fix P :: "char \<Rightarrow> bool" and r :: string and c :: char and cs :: string
  have "length (dropWhile P cs) \<le> length cs"
    by (rule length_dropWhile_le)
  then show "((P, r, dropWhile P cs), (P, r, c # cs)) \<in> measure (\<lambda>(P, r, cs). length cs)"
    by simp
next
  fix P :: "char \<Rightarrow> bool" and r :: string and c :: char and cs :: string
  show "((P, r, cs), (P, r, c # cs)) \<in> measure (\<lambda>(P, r, cs). length cs)"
    by simp
qed

text \<open>\<^verbatim>\<open>s.replace(/-/g, ' ')\<close>: every hyphen becomes a space.\<close>

definition hyphens_to_spaces :: "string \<Rightarrow> string" where
  "hyphens_to_spaces s = map (\<lambda>c. if c = CHR ''-'' then CHR '' '' else c) s"

text \<open>
  \<^verbatim>\<open>s.replace(/\b\w/g, l => l.toUpperCase())\<close>: a word character that follows the start
  of the string or a non-word character is put in upper case. The flag says whether the
  character before the current position is a word character.
\<close>

fun capitalize_words :: "bool \<Rightarrow> string \<Rightarrow> string" where
  "capitalize_words prev [] = []"
| "capitalize_words prev (c # cs) =
     (if is_word c \<and> \<not> prev then toUpperChar c else c) # capitalize_words (is_word c) cs"

text \<open>\<^verbatim>\<open>s.endsWith(t)\<close>.\<close>

definition endsWith :: "string \<Rightarrow> string \<Rightarrow> bool" where
  "endsWith s t = (length t \<le> length s \<and> drop (length s - length t) s = t)"

text \<open>
  Number to string, for the integers that \<^verbatim>\<open>Date.now()\<close> returns: decimal digits, with
  a minus sign in front of a negative number.
\<close>

definition digit_char :: "int \<Rightarrow> char" where
  "digit_char d = ''0123456789'' ! nat (d mod 10)"

function show_digits :: "int \<Rightarrow> string" where
  "show_digits n =
     (if n < 10 then [digit_char n] else show_digits (n div 10) @ [digit_char (n mod 10)])"
  by pat_completeness auto
termination
  by (relation "measure nat") auto

declare show_digits.simps [simp del]

definition show_int :: "int \<Rightarrow> string" where
  "show_int i = (if i < 0 then CHR ''-'' # show_digits (- i) else show_digits i)"

definition digit_val :: "char \<Rightarrow> int" where
  "digit_val c = (of_char c :: int) - 48"

definition int_of_string :: "string \<Rightarrow> int" where
  "int_of_string s = foldl (\<lambda>a c. 10 * a + digit_val c) 0 s"

section \<open>Objects used as dictionaries\<close>

text \<open>
  \<^verbatim>\<open>clients\<close> (line 49) and every \<^verbatim>\<open>projects\<close> (lines 53, 81 and 136) are object
  literals, used as dictionaries with \<^verbatim>\<open>obj[key]\<close>, \<^verbatim>\<open>obj[key] = value\<close> and
  \<^verbatim>\<open>delete obj[key]\<close>. The own properties of an object are an association list in the
  order in which \<^verbatim>\<open>Object.keys\<close>, \<^verbatim>\<open>Object.values\<close> and \<^verbatim>\<open>Object.entries\<close>
  enumerate them: array indices in ascending order first, then the other keys in the
  order of their creation.

  A read \<^verbatim>\<open>obj[key]\<close> of a key that is not an own property continues in the prototype,
  which for an object literal is \<^verbatim>\<open>Object.prototype\<close>: \<^verbatim>\<open>({})['constructor']\<close> is the
  function \<^verbatim>\<open>Object\<close>, not \<^verbatim>\<open>undefined\<close>. The members of \<^verbatim>\<open>Object.prototype\<close> are
  functions, except \<^verbatim>\<open>__proto__\<close>, an accessor whose getter returns the prototype of the
  object and whose setter replaces it. The server tests no key with
  \<^verbatim>\<open>hasOwnProperty\<close>, so its lookups see these members.
\<close>

definition object_prototype_names :: "string list" where
  "object_prototype_names =
     [''constructor'', ''__defineGetter__'', ''__defineSetter__'', ''hasOwnProperty'',
      ''__lookupGetter__'', ''__lookupSetter__'', ''isPrototypeOf'', ''propertyIsEnumerable'',
      ''toString'', ''valueOf'', ''__proto__'', ''toLocaleString'']"

definition is_array_index :: "string \<Rightarrow> bool" where
  "is_array_index k =
     (k \<noteq> [] \<and> list_all is_digit k \<and> show_digits (int_of_string k) = k \<and>
      int_of_string k < 2 ^ 32 - 1)"

fun insert_index :: "string \<Rightarrow> 'a \<Rightarrow> (string \<times> 'a) list \<Rightarrow> (string \<times> 'a) list" where
  "insert_index k v [] = [(k, v)]"
| "insert_index k v ((k', v') # ps) =
     (if is_array_index k' \<and> int_of_string k' < int_of_string k
      then (k', v') # insert_index k v ps
      else (k, v) # (k', v') # ps)"

text \<open>\<^verbatim>\<open>obj[k] = v\<close> on the own properties, for a key other than \<^verbatim>\<open>__proto__\<close>.\<close>

definition put_prop :: "string \<Rightarrow> 'a \<Rightarrow> (string \<times> 'a) list \<Rightarrow> (string \<times> 'a) list" where
  "put_prop k v ps =
     (case map_of ps k of
        Some _ \<Rightarrow> map (\<lambda>p. if fst p = k then (k, v) else p) ps
      | None \<Rightarrow> if is_array_index k then insert_index k v ps else ps @ [(k, v)])"

text \<open>\<^verbatim>\<open>delete obj[k]\<close>: removes an own property, and does nothing else.\<close>

definition delete_prop :: "string \<Rightarrow> (string \<times> 'a) list \<Rightarrow> (string \<times> 'a) list" where
  "delete_prop k ps = filter (\<lambda>p. fst p \<noteq> k) ps"

section \<open>The registry\<close>

record project =
  filename :: string
  description :: string
  uploaded :: string

text \<open>
  A \<^verbatim>\<open>projects\<close> object: its own properties, and its prototype. The prototype is
  \<^verbatim>\<open>Object.prototype\<close> (\<open>None\<close>) until an assignment \<^verbatim>\<open>projects['__proto__'] = record\<close>
  runs the inherited setter, which makes the record the prototype.
\<close>

record projects_obj =
  own :: "(string \<times> project) list"
  proto :: "project option"

record client =
  name :: string
  contact :: string
  projects :: projects_obj

type_synonym registry = "(string \<times> client) list"

text \<open>The value of \<^verbatim>\<open>clients[clientId]\<close>.\<close>

datatype clientval = CUndefined | CClient client | CBuiltin

definition clients_get :: "registry \<Rightarrow> string \<Rightarrow> clientval" where
  "clients_get reg k =
     (case map_of reg k of
        Some c \<Rightarrow> CClient c
      | None \<Rightarrow> if k \<in> set object_prototype_names then CBuiltin else CUndefined)"

text \<open>The value of \<^verbatim>\<open>client.projects[projectId]\<close>.\<close>

datatype projval = PUndefined | PProject project | PString string | PBuiltin

definition projects_get :: "projects_obj \<Rightarrow> string \<Rightarrow> projval" where
  "projects_get po k =
     (case map_of (own po) k of
        Some p \<Rightarrow> PProject p
      | None \<Rightarrow>
          (case proto po of
             Some r \<Rightarrow>
               if k = ''__proto__'' then PProject r
               else if k = ''filename'' then PString (filename r)
               else if k = ''description'' then PString (description r)
               else if k = ''uploaded'' then PString (uploaded r)
               else if k \<in> set object_prototype_names then PBuiltin
               else PUndefined
           | None \<Rightarrow> if k \<in> set object_prototype_names then PBuiltin else PUndefined))"

definition projects_set :: "projects_obj \<Rightarrow> string \<Rightarrow> project \<Rightarrow> projects_obj" where
  "projects_set po k v =
     (if k = ''__proto__'' then po\<lparr>proto := Some v\<rparr> else po\<lparr>own := put_prop k v (own po)\<rparr>)"

definition projects_delete :: "projects_obj \<Rightarrow> string \<Rightarrow> projects_obj" where
  "projects_delete po k = po\<lparr>own := delete_prop k (own po)\<rparr>"

text \<open>
  Truthiness of a value, and the value as a project record: of the values here only a
  record has a \<^verbatim>\<open>filename\<close>; for a string and for an inherited member the property is
  undefined.
\<close>

fun truthy :: "projval \<Rightarrow> bool" where
  "truthy PUndefined = False"
| "truthy (PProject p) = True"
| "truthy (PString s) = (s \<noteq> [])"
| "truthy PBuiltin = True"

fun record_of :: "projval \<Rightarrow> project option" where
  "record_of (PProject p) = Some p"
| "record_of PUndefined = None"
| "record_of (PString s) = None"
| "record_of PBuiltin = None"

text \<open>\<^verbatim>\<open>Object.keys(client.projects).length\<close>.\<close>

definition projectCount :: "client \<Rightarrow> nat" where
  "projectCount c = length (own (projects c))"

text \<open>The registry at process start (lines 49 to 61).\<close>

definition initial_clients :: registry where
  "initial_clients =
     [(''highway-projects'',
       \<lparr>name = ''Highway Projects Inc.'',
        contact = ''john@highwayproj.com'',
        projects =
          \<lparr>own = [(''highway001'',
                   \<lparr>filename = ''1758121257346-4650_highway_a1a_revised_7.24.glb'',
                    description = ''A1A Highway Revision 7.24'',
                    uploaded = ''2024-01-15''\<rparr>)],
           proto = None\<rparr>\<rparr>)]"

section \<open>The file store\<close>

text \<open>
  The active area (\<^verbatim>\<open>uploads\<close>) and the backup area (\<^verbatim>\<open>uploads/backup\<close>) map a file
  name to the bytes of the file. \<open>rename_fails\<close> is the environment: the names for which
  \<^verbatim>\<open>fs.renameSync\<close> throws.
\<close>

type_synonym bytes = string

record fs =
  active :: "string \<rightharpoonup> bytes"
  backup :: "string \<rightharpoonup> bytes"
  rename_fails :: "string \<Rightarrow> bool"

datatype js_error = TypeError | IOError

definition existsSync :: "fs \<Rightarrow> string \<Rightarrow> bool" where
  "existsSync d fn = (active d fn \<noteq> None)"

definition renameSync :: "fs \<Rightarrow> string \<Rightarrow> js_error + fs" where
  "renameSync d fn =
     (case active d fn of
        None \<Rightarrow> Inl IOError
      | Some b \<Rightarrow>
          if rename_fails d fn then Inl IOError
          else Inr (d\<lparr>active := (active d)(fn := None), backup := (backup d)(fn \<mapsto> b)\<rparr>))"

definition writeFile :: "fs \<Rightarrow> string \<Rightarrow> bytes \<Rightarrow> fs" where
  "writeFile d fn b = d\<lparr>active := (active d)(fn \<mapsto> b)\<rparr>"

section \<open>Upload: validator and storage (lines 28 to 46)\<close>

record file_part =
  originalname :: string
  mimetype :: string
  content :: bytes

definition fileFilter :: "file_part \<Rightarrow> string + bool" where
  "fileFilter file =
     (if mimetype file = ''model/gltf-binary'' \<or> endsWith (originalname file) ''.glb''
      then Inr True
      else Inl ''Only .glb files are allowed'')"

definition storage_filename :: "int \<Rightarrow> file_part \<Rightarrow> string" where
  "storage_filename now file =
     show_int now @ ''-'' @ replace_runs is_space ''_'' (originalname file)"

definition fileSize_limit :: int where
  "fileSize_limit = 100 * 1024 * 1024"

text \<open>
  \<^verbatim>\<open>upload.single('model')\<close>, the middleware that runs before the route handler. The
  filter is asked first; an accepted file is written to the active area under the name
  that the storage engine computes from \<^verbatim>\<open>Date.now()\<close>. The result is the error handed
  to Express (the route handler does not run then), or \<^verbatim>\<open>req.file.filename\<close>
  (\<open>None\<close> when \<^verbatim>\<open>req.file\<close> is undefined). A file over the size limit is removed
  again by the middleware.
\<close>

definition upload_single :: "int \<Rightarrow> fs \<Rightarrow> file_part option \<Rightarrow> (string + string option) \<times> fs" where
  "upload_single now d part =
     (case part of
        None \<Rightarrow> (Inr None, d)
      | Some file \<Rightarrow>
          (case fileFilter file of
             Inl msg \<Rightarrow> (Inl msg, d)
           | Inr accepted \<Rightarrow>
               if \<not> accepted then (Inr None, d)
               else if fileSize_limit < int (length (content file))
               then (Inl ''File too large'', d\<lparr>active := (active d)(storage_filename now file := None)\<rparr>)
               else (Inr (Some (storage_filename now file)),
                     writeFile d (storage_filename now file) (content file))))"

section \<open>The route handlers\<close>

text \<open>
  A response is a status and a body. \<open>ErrorPage\<close> is the page of Express's own error
  handler, which answers with status 500 for an error that no route handler caught.
\<close>

datatype body =
    ErrorBody string
  | MessageBody string
  | UploadBody string string string string string
  | ClientsBody "(string \<times> client \<times> nat) list"
  | ClientAddedBody string string
  | ProjectDeletedBody string nat
  | ModelBody string string string string
  | ErrorPage string

datatype response = Response (status: nat) (body: body)

record state =
  clients :: registry
  disk :: fs

text \<open>\<^verbatim>\<open>v || d\<close> for a string or undefined \<open>v\<close>.\<close>

definition or_else :: "string option \<Rightarrow> string \<Rightarrow> string" where
  "or_else v d = (case v of None \<Rightarrow> d | Some s \<Rightarrow> if s = [] then d else s)"

fun client_truthy :: "clientval \<Rightarrow> bool" where
  "client_truthy CUndefined = False"
| "client_truthy (CClient c) = True"
| "client_truthy CBuiltin = True"

subsection \<open>POST /api/admin/upload (lines 64 to 104)\<close>

record upload_request =
  req_file :: "file_part option"
  body_clientId :: "string option"
  body_projectId :: "string option"
  body_description :: "string option"

definition humanize :: "string \<Rightarrow> string" where
  "humanize clientId = capitalize_words False (hyphens_to_spaces clientId)"

text \<open>
  The body of the \<^verbatim>\<open>try\<close> block (lines 76 to 90): the client is created when
  \<^verbatim>\<open>clients[clientId]\<close> is falsy, then the project is stored in
  \<^verbatim>\<open>clients[clientId].projects\<close>. When \<^verbatim>\<open>clients[clientId]\<close> is an inherited member,
  its \<^verbatim>\<open>projects\<close> is undefined and the assignment throws a TypeError.
\<close>

definition linkProject ::
  "string \<Rightarrow> registry \<Rightarrow> string \<Rightarrow> string \<Rightarrow> string \<Rightarrow> string option \<Rightarrow> js_error + registry" where
  "linkProject today reg clientId projectId fname descr =
     (let reg1 =
        (if \<not> client_truthy (clients_get reg clientId)
         then put_prop clientId
                \<lparr>name = humanize clientId, contact = [], projects = \<lparr>own = [], proto = None\<rparr>\<rparr> reg
         else reg)
      in case clients_get reg1 clientId of
           CClient c \<Rightarrow>
             Inr (put_prop clientId
                    (c\<lparr>projects :=
                         projects_set (projects c) projectId
                           \<lparr>filename = fname,
                            description = or_else descr (''Project '' @ projectId),
                            uploaded = today\<rparr>\<rparr>)
                    reg1)
         | CUndefined \<Rightarrow> Inl TypeError
         | CBuiltin \<Rightarrow> Inl TypeError)"

text \<open>
  The whole request. \<open>now\<close> is the value of \<^verbatim>\<open>Date.now()\<close> in the storage engine,
  \<open>today\<close> the date part of \<^verbatim>\<open>new Date().toISOString()\<close> in the handler.
\<close>

definition post_upload :: "int \<Rightarrow> string \<Rightarrow> state \<Rightarrow> upload_request \<Rightarrow> response \<times> state" where
  "post_upload now today st req =
     (case upload_single now (disk st) (req_file req) of
        (Inl msg, d) \<Rightarrow> (Response 500 (ErrorPage msg), st\<lparr>disk := d\<rparr>)
      | (Inr None, d) \<Rightarrow>
          (Response 400 (ErrorBody ''No file uploaded or invalid file type''), st\<lparr>disk := d\<rparr>)
      | (Inr (Some fname), d) \<Rightarrow>
          (case (body_clientId req, body_projectId req) of
             (Some clientId, Some projectId) \<Rightarrow>
               if clientId = [] \<or> projectId = []
               then (Response 400 (ErrorBody ''Client ID and Project ID are required''), st\<lparr>disk := d\<rparr>)
               else
                 (case linkProject today (clients st) clientId projectId fname (body_description req) of
                    Inl e \<Rightarrow> (Response 500 (ErrorBody ''Failed to process upload''), st\<lparr>disk := d\<rparr>)
                  | Inr reg \<Rightarrow>
                      (Response 200
                         (UploadBody ''Model uploaded and linked successfully'' fname
                            (''/uploads/'' @ fname) clientId projectId),
                       \<lparr>clients = reg, disk = d\<rparr>))
           | _ \<Rightarrow> (Response 400 (ErrorBody ''Client ID and Project ID are required''), st\<lparr>disk := d\<rparr>)))"

subsection \<open>GET /api/admin/clients (lines 107 to 116)\<close>

definition listClients :: "state \<Rightarrow> response" where
  "listClients st = Response 200 (ClientsBody (map (\<lambda>(k, c). (k, c, projectCount c)) (clients st)))"

subsection \<open>POST /api/admin/client (lines 119 to 148)\<close>

definition derive_id :: "string \<Rightarrow> string" where
  "derive_id n = replace_runs is_space ''-'' (toLowerCase n)"

definition createClient :: "state \<Rightarrow> string option \<Rightarrow> string option \<Rightarrow> response \<times> state" where
  "createClient st nm ct =
     (case nm of
        None \<Rightarrow> (Response 400 (ErrorBody ''Client name is required''), st)
      | Some n \<Rightarrow>
          if n = [] then (Response 400 (ErrorBody ''Client name is required''), st)
          else if client_truthy (clients_get (clients st) (derive_id n))
          then (Response 400 (ErrorBody ''Client already exists''), st)
          else
            (Response 200 (ClientAddedBody ''Client added successfully'' (derive_id n)),
             st\<lparr>clients :=
                  put_prop (derive_id n)
                    \<lparr>name = n, contact = or_else ct [], projects = \<lparr>own = [], proto = None\<rparr>\<rparr>
                    (clients st)\<rparr>))"

subsection \<open>DELETE /api/admin/client/:clientId/project/:projectId (lines 151 to 192)\<close>

text \<open>
  The two lookups of lines 155 to 165 are outside the \<^verbatim>\<open>try\<close> block: when
  \<^verbatim>\<open>clients[clientId]\<close> is an inherited member, \<^verbatim>\<open>client.projects[projectId]\<close> throws
  and Express answers. Inside the block, \<^verbatim>\<open>path.join\<close> throws for a file name that is
  undefined, and \<^verbatim>\<open>fs.renameSync\<close> may throw; both end in the \<^verbatim>\<open>catch\<close>.
\<close>

definition deleteProject :: "state \<Rightarrow> string \<Rightarrow> string \<Rightarrow> response \<times> state" where
  "deleteProject st clientId projectId =
     (case clients_get (clients st) clientId of
        CUndefined \<Rightarrow> (Response 404 (ErrorBody ''Client not found''), st)
      | CBuiltin \<Rightarrow> (Response 500 (ErrorPage ''TypeError''), st)
      | CClient c \<Rightarrow>
          if \<not> truthy (projects_get (projects c) projectId)
          then (Response 404 (ErrorBody ''Project not found''), st)
          else
            (case record_of (projects_get (projects c) projectId) of
               None \<Rightarrow> (Response 500 (ErrorBody ''Failed to move project to backup''), st)
             | Some p \<Rightarrow>
                 (case (if existsSync (disk st) (filename p) then renameSync (disk st) (filename p)
                        else Inr (disk st)) of
                    Inl e \<Rightarrow> (Response 500 (ErrorBody ''Failed to move project to backup''), st)
                  | Inr d \<Rightarrow>
                      (Response 200
                         (ProjectDeletedBody
                            (''Project '' @ projectId @ '' moved to backup successfully'')
                            (projectCount (c\<lparr>projects := projects_delete (projects c) projectId\<rparr>))),
                       \<lparr>clients =
                          put_prop clientId
                            (c\<lparr>projects := projects_delete (projects c) projectId\<rparr>) (clients st),
                        disk = d\<rparr>))))"

subsection \<open>DELETE /api/admin/client/:clientId (lines 195 to 226)\<close>

text \<open>
  The loop over \<^verbatim>\<open>Object.values(client.projects)\<close>: the files moved before a
  \<^verbatim>\<open>renameSync\<close> that throws stay moved.
\<close>

fun move_all :: "fs \<Rightarrow> project list \<Rightarrow> js_error option \<times> fs" where
  "move_all d [] = (None, d)"
| "move_all d (p # ps) =
     (if existsSync d (filename p)
      then (case renameSync d (filename p) of
              Inl e \<Rightarrow> (Some e, d)
            | Inr d' \<Rightarrow> move_all d' ps)
      else move_all d ps)"

definition deleteClient :: "state \<Rightarrow> string \<Rightarrow> response \<times> state" where
  "deleteClient st clientId =
     (case clients_get (clients st) clientId of
        CUndefined \<Rightarrow> (Response 400 (ErrorBody ''Client not found''), st)
      | CBuiltin \<Rightarrow> (Response 500 (ErrorBody ''Failed to move client projects to backup''), st)
      | CClient c \<Rightarrow>
          (case move_all (disk st) (map snd (own (projects c))) of
             (Some e, d) \<Rightarrow>
               (Response 500 (ErrorBody ''Failed to move client projects to backup''), st\<lparr>disk := d\<rparr>)
           | (None, d) \<Rightarrow>
               (Response 200
                  (MessageBody
                     (''Client '' @ clientId @ '' and all projects moved to backup successfully'')),
                \<lparr>clients = delete_prop clientId (clients st), disk = d\<rparr>)))"

subsection \<open>GET /api/client/:clientName/project/:number (lines 229 to 263)\<close>

definition findClientByName :: "registry \<Rightarrow> string \<Rightarrow> client option" where
  "findClientByName reg clientName =
     find (\<lambda>c. toLowerCase (name c) = toLowerCase clientName) (map snd reg)"

definition dquote :: string where
  "dquote = [CHR 0x22]"

definition resolve :: "state \<Rightarrow> string \<Rightarrow> string \<Rightarrow> response" where
  "resolve st clientName projectNumber =
     (case findClientByName (clients st) clientName of
        None \<Rightarrow>
          Response 404 (ErrorBody (''Client '' @ dquote @ clientName @ dquote @ '' not found''))
      | Some c \<Rightarrow>
          if truthy (projects_get (projects c) projectNumber)
          then
            (case record_of (projects_get (projects c) projectNumber) of
               None \<Rightarrow> Response 500 (ErrorPage ''TypeError'')
             | Some p \<Rightarrow>
                 if existsSync (disk st) (filename p)
                 then
                   Response 200
                     (ModelBody (''/uploads/'' @ filename p) (name c) projectNumber (description p))
                 else Response 404 (ErrorBody ''Model file not found''))
          else
            Response 404
              (ErrorBody (''Project '' @ dquote @ projectNumber @ dquote @ '' not found for '' @ name c)))"

section \<open>Well-formed registries\<close>

text \<open>
  An object has each own key once: the keys of the registry are distinct, and so are the
  keys of the projects of every client.
\<close>

definition wf_registry :: "registry \<Rightarrow> bool" where
  "wf_registry reg \<longleftrightarrow>
     distinct (map fst reg) \<and> (\<forall>c\<in>snd ` set reg. distinct (map fst (own (projects c))))"

section \<open>The derivation of an id in the words of the specification\<close>


section \<open>Example states\<close>

definition empty_disk :: fs where
  "empty_disk = \<lparr>active = Map.empty, backup = Map.empty, rename_fails = (\<lambda>fn. False)\<rparr>"

definition initial_state :: state where
  "initial_state = \<lparr>clients = initial_clients, disk = empty_disk\<rparr>"

text \<open>
  The initial registry with the file of its project in the active area, on a disk where
  every \<^verbatim>\<open>renameSync\<close> throws.
\<close>

definition stuck_state :: state where
  "stuck_state =
     \<lparr>clients = initial_clients,
      disk = \<lparr>active = [''1758121257346-4650_highway_a1a_revised_7.24.glb'' \<mapsto> ''glTF''],
              backup = Map.empty,
              rename_fails = (\<lambda>fn. True)\<rparr>\<rparr>"

text \<open>The same registry and file on a disk where moving works.\<close>

definition stored_state :: state where
  "stored_state =
     \<lparr>clients = initial_clients,
      disk = \<lparr>active = [''1758121257346-4650_highway_a1a_revised_7.24.glb'' \<mapsto> ''glTF''],
              backup = Map.empty,
              rename_fails = (\<lambda>fn. False)\<rparr>\<rparr>"

definition text_file :: file_part where
  "text_file = \<lparr>originalname = ''model.txt'', mimetype = ''text/plain'', content = ''solid''\<rparr>"

definition glb_file :: file_part where
  "glb_file =
     \<lparr>originalname = ''bridge deck.glb'', mimetype = ''application/octet-stream'', content = ''glTF''\<rparr>"


text \<open>The states of the scenario of the specification's section 8.\<close>

definition after_create :: state where
  "after_create = snd (createClient initial_state (Some ''Acme Co'') None)"

definition after_upload :: state where
  "after_upload =
     snd (post_upload 1000 ''2024-01-15'' after_create
            \<lparr>req_file = Some glb_file, body_clientId = Some ''acme-co'',
             body_projectId = Some ''p1'', body_description = None\<rparr>)"

definition after_delete :: state where
  "after_delete = snd (deleteProject after_upload ''acme-co'' ''p1'')"

section \<open>Replacing the runs of a character class\<close>







lemma replace_runs_free:
  assumes "\<forall>c\<in>set r. \<not> P c"
  shows "\<forall>c\<in>set (replace_runs P r s). \<not> P c"
  using assms
proof (induction P r s rule: replace_runs.induct)
  case (1 P r)
  then show ?case by simp
next
  case (2 P r c cs)
  show ?case
  proof (cases "P c")
    case True
    with "2.IH"(1) "2.prems"
    have "\<forall>x\<in>set (replace_runs P r (dropWhile P cs)). \<not> P x"
      by blast
    with True "2.prems" show ?thesis
      by (simp add: ball_Un)
  next
    case False
    with "2.IH"(2) "2.prems"
    have "\<forall>x\<in>set (replace_runs P r cs). \<not> P x"
      by blast
    with False show ?thesis
      by simp
  qed
qed

section \<open>Lower case\<close>

lemma is_space_toLowerChar [simp]: "is_space (toLowerChar c) = is_space c"
  by (auto simp: is_space_def toLowerChar_def is_upper_def Let_def)

lemma is_upper_toLowerChar [simp]: "\<not> is_upper (toLowerChar c)"
  by (auto simp: toLowerChar_def is_upper_def Let_def)

lemma toLowerChar_idem [simp]: "toLowerChar (toLowerChar c) = toLowerChar c"
  using is_upper_toLowerChar [of c] by (simp add: toLowerChar_def [of "toLowerChar c"])

lemma toLowerCase_append [simp]: "toLowerCase (a @ b) = toLowerCase a @ toLowerCase b"
  by (simp add: toLowerCase_def)

section \<open>Own properties: reading after writing and deleting\<close>

lemma map_of_replace:
  "map_of (map (\<lambda>p. if fst p = k then (k, v) else p) ps) =
     (if k \<in> fst ` set ps then (map_of ps)(k \<mapsto> v) else map_of ps)"
  by (induction ps) (auto simp: fun_eq_iff)

lemma map_of_insert_index:
  "k \<notin> fst ` set ps \<Longrightarrow> map_of (insert_index k v ps) = (map_of ps)(k \<mapsto> v)"
  by (induction ps) (auto simp: fun_eq_iff)

lemma map_of_put_prop: "map_of (put_prop k v ps) = (map_of ps)(k \<mapsto> v)"
proof (cases "map_of ps k")
  case None
  then have "k \<notin> fst ` set ps"
    by (simp add: map_of_eq_None_iff)
  with None show ?thesis
    by (auto simp: put_prop_def map_of_insert_index fun_eq_iff map_add_def split: option.splits)
next
  case (Some a)
  then have "k \<in> fst ` set ps"
    by (metis map_of_eq_None_iff option.distinct(1))
  with Some show ?thesis
    by (simp add: put_prop_def map_of_replace)
qed

lemma keys_insert_index: "fst ` set (insert_index k v ps) = insert k (fst ` set ps)"
proof (induction ps)
  case Nil
  then show ?case by simp
next
  case (Cons p ps)
  obtain k' v' where p: "p = (k', v')"
    by (cases p)
  show ?case
  proof (cases "is_array_index k' \<and> int_of_string k' < int_of_string k")
    case True
    with p Cons.IH show ?thesis
      by (simp add: insert_commute)
  next
    case False
    then have "insert_index k v ((k', v') # ps) = (k, v) # (k', v') # ps"
      by auto
    with p show ?thesis
      by simp
  qed
qed

lemma keys_put_prop: "fst ` set (put_prop k v ps) = insert k (fst ` set ps)"
proof (cases "map_of ps k")
  case None
  then show ?thesis
    by (auto simp: put_prop_def keys_insert_index)
next
  case (Some a)
  then have "k \<in> fst ` set ps"
    by (metis map_of_eq_None_iff option.distinct(1))
  moreover have "map fst (map (\<lambda>p. if fst p = k then (k, v) else p) ps) = map fst ps"
    by (induction ps) auto
  then have "fst ` set (map (\<lambda>p. if fst p = k then (k, v) else p) ps) = fst ` set ps"
    by (metis set_map)
  ultimately show ?thesis
    using Some by (auto simp: put_prop_def)
qed

lemma distinct_insert_index:
  "distinct (map fst ps) \<Longrightarrow> k \<notin> fst ` set ps \<Longrightarrow> distinct (map fst (insert_index k v ps))"
proof (induction ps)
  case Nil
  then show ?case by simp
next
  case (Cons p ps)
  have "fst ` set (insert_index k v ps) = insert k (fst ` set ps)"
    by (rule keys_insert_index)
  with Cons show ?case
    by (cases p) auto
qed

lemma distinct_put_prop:
  assumes "distinct (map fst ps)"
  shows "distinct (map fst (put_prop k v ps))"
proof (cases "map_of ps k")
  case None
  then have "k \<notin> fst ` set ps"
    by (simp add: map_of_eq_None_iff)
  with None assms show ?thesis
    by (auto simp: put_prop_def distinct_insert_index)
next
  case (Some a)
  have "map fst (map (\<lambda>p. if fst p = k then (k, v) else p) ps) = map fst ps"
    by (induction ps) auto
  then have "map fst (put_prop k v ps) = map fst ps"
    by (simp only: put_prop_def Some option.case)
  with assms show ?thesis
    by simp
qed

lemma length_insert_index: "length (insert_index k v ps) = Suc (length ps)"
  by (induction ps) auto

lemma length_put_prop:
  "length (put_prop k v ps) = (if k \<in> fst ` set ps then length ps else Suc (length ps))"
proof (cases "map_of ps k")
  case None
  then have "k \<notin> fst ` set ps"
    by (simp add: map_of_eq_None_iff)
  with None show ?thesis
    by (simp add: put_prop_def length_insert_index)
next
  case (Some a)
  then have "k \<in> fst ` set ps"
    by (metis map_of_eq_None_iff option.distinct(1))
  with Some show ?thesis
    by (simp add: put_prop_def)
qed

lemma map_of_delete_prop: "map_of (delete_prop k ps) = (map_of ps)(k := None)"
  by (induction ps) (auto simp: delete_prop_def fun_eq_iff)

lemma distinct_delete_prop: "distinct (map fst ps) \<Longrightarrow> distinct (map fst (delete_prop k ps))"
  by (simp add: delete_prop_def distinct_map_filter)

lemma length_delete_prop:
  "distinct (map fst ps) \<Longrightarrow> k \<in> fst ` set ps \<Longrightarrow> Suc (length (delete_prop k ps)) = length ps"
proof (induction ps)
  case Nil
  then show ?case by simp
next
  case (Cons p ps)
  show ?case
  proof (cases "fst p = k")
    case True
    with Cons.prems have "k \<notin> fst ` set ps"
      by auto
    then have "filter (\<lambda>q. fst q \<noteq> k) ps = ps"
      by (auto simp: filter_id_conv)
    with True show ?thesis
      by (simp add: delete_prop_def)
  next
    case False
    with Cons show ?thesis
      by (auto simp: delete_prop_def)
  qed
qed

lemma delete_prop_absent: "k \<notin> fst ` set ps \<Longrightarrow> delete_prop k ps = ps"
  by (auto simp: delete_prop_def filter_id_conv)

lemma keys_delete_prop: "fst ` set (delete_prop k ps) = fst ` set ps - {k}"
  by (auto simp: delete_prop_def)

section \<open>Reading a key of the registry and of a client's projects\<close>

lemma clients_get_own: "map_of reg k = Some c \<Longrightarrow> clients_get reg k = CClient c"
  by (simp add: clients_get_def)

lemma clients_get_CClient: "clients_get reg k = CClient c \<longleftrightarrow> map_of reg k = Some c"
  by (auto simp: clients_get_def split: option.splits)

lemma clients_get_CUndefined:
  "clients_get reg k = CUndefined \<longleftrightarrow> k \<notin> fst ` set reg \<and> k \<notin> set object_prototype_names"
proof (cases "map_of reg k")
  case None
  then have "k \<notin> fst ` set reg"
    by (simp add: map_of_eq_None_iff)
  with None show ?thesis
    by (simp add: clients_get_def)
next
  case (Some c)
  then have "k \<in> fst ` set reg"
    by (metis map_of_eq_None_iff option.distinct(1))
  with Some show ?thesis
    by (simp add: clients_get_def)
qed


lemma projects_get_own: "map_of (own po) k = Some p \<Longrightarrow> projects_get po k = PProject p"
  by (simp add: projects_get_def)

lemma record_of_projects_get:
  "record_of (projects_get po k) = Some p \<longleftrightarrow>
     map_of (own po) k = Some p \<or>
     (map_of (own po) k = None \<and> k = ''__proto__'' \<and> proto po = Some p)"
  by (auto simp: projects_get_def split: option.splits)

lemma projects_get_PUndefined:
  "projects_get po k = PUndefined \<longleftrightarrow>
     map_of (own po) k = None \<and> k \<notin> set object_prototype_names \<and>
     (proto po \<noteq> None \<longrightarrow> k \<notin> {''filename'', ''description'', ''uploaded''})"
proof -
  have "''__proto__'' \<in> set object_prototype_names"
    by (simp add: object_prototype_names_def)
  then show ?thesis
    by (auto simp: projects_get_def split: option.splits)
qed

section \<open>The upload validator\<close>

lemma endsWith_iff_suffix: "endsWith s t \<longleftrightarrow> suffix t s"
proof
  assume "endsWith s t"
  then have "drop (length s - length t) s = t"
    by (simp add: endsWith_def)
  then have "s = take (length s - length t) s @ t"
    by (metis append_take_drop_id)
  then show "suffix t s"
    by (rule suffixI)
next
  assume "suffix t s"
  then obtain p where "s = p @ t"
    by (auto simp: suffix_def)
  then show "endsWith s t"
    by (simp add: endsWith_def)
qed

text \<open>
  C4. The validator accepts a file exactly when its declared MIME type is
  \<^verbatim>\<open>model/gltf-binary\<close> or its original name ends in \<^verbatim>\<open>.glb\<close>. It rejects every
  other file with the message \<^verbatim>\<open>Only .glb files are allowed\<close>, and the request then
  ends before the storage engine runs: the active area, the backup area and the registry
  are what they were.
\<close>

theorem fileFilter_accepts_iff:
  "(if mimetype file = ''model/gltf-binary'' \<or> (\<exists>stem. originalname file = stem @ ''.glb'')
    then fileFilter file = Inr True
    else fileFilter file = Inl ''Only .glb files are allowed'' \<and>
         post_upload now today st (req\<lparr>req_file := Some file\<rparr>) =
           (Response 500 (ErrorPage ''Only .glb files are allowed''), st))"
proof -
  have "endsWith (originalname file) ''.glb'' \<longleftrightarrow> (\<exists>stem. originalname file = stem @ ''.glb'')"
    by (simp add: endsWith_iff_suffix suffix_def)
  then show ?thesis
    by (simp add: fileFilter_def post_upload_def upload_single_def)
qed

theorem fileFilter_accepts_iff_witness:
  "fileFilter text_file = Inl ''Only .glb files are allowed'' \<and>
   post_upload 1000 ''2024-01-15'' initial_state
     \<lparr>req_file = Some text_file, body_clientId = Some ''acme-co'', body_projectId = Some ''p1'',
      body_description = None\<rparr> =
     (Response 500 (ErrorPage ''Only .glb files are allowed''), initial_state) \<and>
   fileFilter glb_file = Inr True"
  using
    fileFilter_accepts_iff [of text_file 1000 "''2024-01-15''" initial_state
      "\<lparr>req_file = None, body_clientId = Some ''acme-co'', body_projectId = Some ''p1'',
        body_description = None\<rparr>"]
    fileFilter_accepts_iff [of glb_file]
  by (simp add: text_file_def glb_file_def)

section \<open>Stored file names\<close>














section \<open>The initial registry\<close>

lemma findClientByName_initial:
  "findClientByName initial_clients ''highway projects inc.'' = Some (snd (hd initial_clients))"
  by code_simp

text \<open>
  C10. At process start the registry holds exactly one client, under the id
  \<^verbatim>\<open>highway-projects\<close>, with the display name \<^verbatim>\<open>Highway Projects Inc.\<close> and exactly one
  project, \<^verbatim>\<open>highway001\<close>. The first listing returns that client with a project count
  of 1, and the lookup by the name in lower case finds it, before any client is created
  or any project is linked.
\<close>

theorem initial_registry:
  "\<exists>c p. initial_clients = [(''highway-projects'', c)] \<and>
         name c = ''Highway Projects Inc.'' \<and>
         own (projects c) = [(''highway001'', p)] \<and>
         listClients \<lparr>clients = initial_clients, disk = d\<rparr> =
           Response 200 (ClientsBody [(''highway-projects'', c, 1)]) \<and>
         findClientByName initial_clients ''highway projects inc.'' = Some c"
  using findClientByName_initial
  by (simp add: initial_clients_def listClients_def projectCount_def)

section \<open>An upload without identifiers\<close>

text \<open>
  C9. A request whose file passes the validator and the size limit, and whose client id
  or project id is missing or empty, is answered with status 400 and
  \<^verbatim>\<open>Client ID and Project ID are required\<close>. The registry is unchanged, and the file
  is in the active area under its stored name: the storage engine ran before the handler
  looked at the identifiers, and no project refers to the file on account of this
  request.
\<close>

theorem upload_without_ids_leaves_file:
  assumes "req_file req = Some file" and "fileFilter file = Inr True"
    and "int (length (content file)) \<le> fileSize_limit"
    and "body_clientId req = None \<or> body_clientId req = Some [] \<or>
         body_projectId req = None \<or> body_projectId req = Some []"
  shows "post_upload now today st req =
           (Response 400 (ErrorBody ''Client ID and Project ID are required''),
            st\<lparr>disk := writeFile (disk st) (storage_filename now file) (content file)\<rparr>) \<and>
         clients (snd (post_upload now today st req)) = clients st \<and>
         active (disk (snd (post_upload now today st req))) (storage_filename now file) =
           Some (content file)"
proof -
  from assms(1-3) have "upload_single now (disk st) (req_file req) =
      (Inr (Some (storage_filename now file)),
       writeFile (disk st) (storage_filename now file) (content file))"
    by (simp add: upload_single_def)
  with assms(4) show ?thesis
    by (auto simp: post_upload_def writeFile_def split: option.splits)
qed

theorem upload_without_ids_leaves_file_witness:
  "post_upload 1000 ''2024-01-15'' initial_state
     \<lparr>req_file = Some glb_file, body_clientId = Some ''acme-co'', body_projectId = None,
      body_description = None\<rparr> =
     (Response 400 (ErrorBody ''Client ID and Project ID are required''),
      initial_state\<lparr>disk := writeFile empty_disk ''1000-bridge_deck.glb'' ''glTF''\<rparr>) \<and>
   clients (snd (post_upload 1000 ''2024-01-15'' initial_state
     \<lparr>req_file = Some glb_file, body_clientId = Some ''acme-co'', body_projectId = None,
      body_description = None\<rparr>)) = initial_clients \<and>
   active (disk (snd (post_upload 1000 ''2024-01-15'' initial_state
     \<lparr>req_file = Some glb_file, body_clientId = Some ''acme-co'', body_projectId = None,
      body_description = None\<rparr>))) ''1000-bridge_deck.glb'' = Some ''glTF''"
proof -
  let ?req = "\<lparr>req_file = Some glb_file, body_clientId = Some ''acme-co'', body_projectId = None,
      body_description = None\<rparr>"
  have a: "req_file ?req = Some glb_file"
    by simp
  have b: "fileFilter glb_file = Inr True"
    by code_simp
  have c: "int (length (content glb_file)) \<le> fileSize_limit"
    by (simp add: glb_file_def fileSize_limit_def)
  have d: "body_clientId ?req = None \<or> body_clientId ?req = Some [] \<or>
      body_projectId ?req = None \<or> body_projectId ?req = Some []"
    by simp
  have n: "storage_filename 1000 glb_file = ''1000-bridge_deck.glb''"
    by code_simp
  have ct: "content glb_file = ''glTF''"
    by (simp add: glb_file_def)
  show ?thesis
    using upload_without_ids_leaves_file [OF a b c d, of 1000 "''2024-01-15''" initial_state]
    by (simp add: n ct initial_state_def writeFile_def)
qed

section \<open>Linking a project\<close>

lemma capitalize_words_space:
  "capitalize_words prev (a @ CHR '' '' # b) =
     capitalize_words prev a @ CHR '' '' # capitalize_words False b"
proof (induction a arbitrary: prev)
  case Nil
  have "\<not> is_word CHR '' ''"
    by (simp add: is_word_def is_alnum_def is_digit_def is_upper_def is_lower_def)
  then show ?case by simp
next
  case (Cons c a)
  then show ?case by simp
qed

lemma capitalize_words_inside:
  "\<forall>c\<in>set s. is_word c \<Longrightarrow> capitalize_words True s = s"
  by (induction s) auto

lemma not_is_word_hyphen: "is_word c \<Longrightarrow> c \<noteq> CHR ''-''"
  by (auto simp: is_word_def is_alnum_def is_digit_def is_upper_def is_lower_def)

text \<open>
  The display name of an id: hyphens become spaces, and the pieces between them are
  treated on their own; a piece made of word characters gets its first character in upper
  case and keeps the others.
\<close>

lemma humanize_hyphen: "humanize (a @ ''-'' @ b) = humanize a @ '' '' @ humanize b"
  by (simp add: humanize_def hyphens_to_spaces_def capitalize_words_space)

lemma humanize_word:
  assumes "\<forall>x\<in>set (c # cs). is_word x"
  shows "humanize (c # cs) = toUpperChar c # cs"
proof -
  have "map (\<lambda>x. if x = CHR ''-'' then CHR '' '' else x) (c # cs) = c # cs"
  proof (rule map_idI)
    fix x
    assume "x \<in> set (c # cs)"
    with assms have "x \<noteq> CHR ''-''"
      by (blast dest: not_is_word_hyphen)
    then show "(if x = CHR ''-'' then CHR '' '' else x) = x"
      by simp
  qed
  then have "hyphens_to_spaces (c # cs) = c # cs"
    by (simp only: hyphens_to_spaces_def)
  moreover from assms have "capitalize_words False (c # cs) = toUpperChar c # cs"
    by (simp add: capitalize_words_inside)
  ultimately show ?thesis
    by (simp only: humanize_def)
qed

text \<open>
  For a client id that is no key of the registry and not the name of an inherited member:
  exactly one client is added, with the humanized id as its name and an empty contact,
  and the clients under the other ids are as they were.
\<close>

lemma linkProject_new_client:
  assumes "clientId \<notin> fst ` set reg" and "clientId \<notin> set object_prototype_names"
  shows "\<exists>reg' c'. linkProject today reg clientId projectId fname descr = Inr reg' \<and>
           length reg' = Suc (length reg) \<and>
           map_of reg' clientId = Some c' \<and>
           name c' = humanize clientId \<and> contact c' = [] \<and>
           projects c' =
             projects_set \<lparr>own = [], proto = None\<rparr> projectId
               \<lparr>filename = fname, description = or_else descr (''Project '' @ projectId),
                uploaded = today\<rparr> \<and>
           (\<forall>k. k \<noteq> clientId \<longrightarrow> map_of reg' k = map_of reg k)"
proof -
  let ?new = "\<lparr>name = humanize clientId, contact = [], projects = \<lparr>own = [], proto = None\<rparr>\<rparr>"
  from assms have u: "clients_get reg clientId = CUndefined"
    by (simp add: clients_get_CUndefined)
  have g: "clients_get (put_prop clientId ?new reg) clientId = CClient ?new"
    by (simp add: clients_get_CClient map_of_put_prop)
  have l: "length (put_prop clientId v (put_prop clientId ?new reg)) = Suc (length reg)" for v
    using assms(1) by (simp add: length_put_prop keys_put_prop)
  show ?thesis
    by (simp add: linkProject_def u g l map_of_put_prop)
qed

text \<open>A request for one client id leaves the clients under every other id as they were.\<close>

lemma linkProject_frame:
  assumes "linkProject today reg clientId projectId fname descr = Inr reg'" and "k \<noteq> clientId"
  shows "map_of reg' k = map_of reg k"
  using assms
  by (auto simp: linkProject_def Let_def map_of_put_prop split: if_splits clientval.splits)

text \<open>
  C5 at the failing input. The registry has no client \<^verbatim>\<open>constructor\<close>. The test of
  line 77 finds the inherited constructor function, creates no client, and the assignment
  of line 86 throws: the answer is status 500 from the \<^verbatim>\<open>catch\<close> block, and the registry
  is the initial one, where the claim has one client created with the display name
  \<^verbatim>\<open>Constructor\<close>.
\<close>

theorem linkProject_inherited_client_id:
  "''constructor'' \<notin> fst ` set initial_clients \<and>
   humanize ''constructor'' = ''Constructor'' \<and>
   linkProject ''2024-01-15'' initial_clients ''constructor'' ''p1'' ''1000-bridge_deck.glb'' None =
     Inl TypeError \<and>
   fst (post_upload 1000 ''2024-01-15'' initial_state
         \<lparr>req_file = Some glb_file, body_clientId = Some ''constructor'',
          body_projectId = Some ''p1'', body_description = None\<rparr>) =
     Response 500 (ErrorBody ''Failed to process upload'') \<and>
   clients (snd (post_upload 1000 ''2024-01-15'' initial_state
         \<lparr>req_file = Some glb_file, body_clientId = Some ''constructor'',
          body_projectId = Some ''p1'', body_description = None\<rparr>)) =
     initial_clients"
  by code_simp

section \<open>Creating a client\<close>






section \<open>Deleting a project\<close>

lemma deleteProject_own:
  assumes "map_of (clients st) clientId = Some c" and "map_of (own (projects c)) projectId = Some p"
  shows "deleteProject st clientId projectId =
     (if existsSync (disk st) (filename p) \<and> rename_fails (disk st) (filename p)
      then (Response 500 (ErrorBody ''Failed to move project to backup''), st)
      else (Response 200
              (ProjectDeletedBody (''Project '' @ projectId @ '' moved to backup successfully'')
                 (length (delete_prop projectId (own (projects c))))),
            \<lparr>clients =
               put_prop clientId (c\<lparr>projects := projects_delete (projects c) projectId\<rparr>) (clients st),
             disk =
               (if existsSync (disk st) (filename p)
                then (disk st)\<lparr>active := (active (disk st))(filename p := None),
                               backup := (backup (disk st))(filename p := active (disk st) (filename p))\<rparr>
                else disk st)\<rparr>))"
  using assms
  by (auto simp: deleteProject_def clients_get_own projects_get_own existsSync_def renameSync_def
      projectCount_def projects_delete_def split: option.splits)

text \<open>
  C2, as amended. When the client and the project are own keys of the registry, the
  project's entry is removed although no file was moved when the file is absent from the
  active area: the relocation is skipped and the request succeeds. The entry is removed
  as well when the file is there and the move succeeds. When the move itself fails, the
  request fails with status 500 and the registry keeps the entry.
\<close>

theorem deleteProject_relocation:
  assumes "map_of (clients st) clientId = Some c" and "map_of (own (projects c)) projectId = Some p"
  shows
    "if existsSync (disk st) (filename p) \<and> rename_fails (disk st) (filename p)
     then deleteProject st clientId projectId =
            (Response 500 (ErrorBody ''Failed to move project to backup''), st)
     else status (fst (deleteProject st clientId projectId)) = 200 \<and>
          (\<exists>c'. map_of (clients (snd (deleteProject st clientId projectId))) clientId = Some c' \<and>
                map_of (own (projects c')) projectId = None) \<and>
          disk (snd (deleteProject st clientId projectId)) =
            (if existsSync (disk st) (filename p)
             then (disk st)\<lparr>active := (active (disk st))(filename p := None),
                            backup := (backup (disk st))(filename p := active (disk st) (filename p))\<rparr>
             else disk st)"
  by (simp add: deleteProject_own [OF assms] map_of_put_prop projects_delete_def map_of_delete_prop)

theorem deleteProject_relocation_witness:
  "status (fst (deleteProject initial_state ''highway-projects'' ''highway001'')) = 200 \<and>
   (\<exists>c'. map_of (clients (snd (deleteProject initial_state ''highway-projects'' ''highway001'')))
           ''highway-projects'' = Some c' \<and>
         map_of (own (projects c')) ''highway001'' = None) \<and>
   disk (snd (deleteProject initial_state ''highway-projects'' ''highway001'')) = empty_disk \<and>
   status (fst (deleteProject stored_state ''highway-projects'' ''highway001'')) = 200 \<and>
   (\<exists>c'. map_of (clients (snd (deleteProject stored_state ''highway-projects'' ''highway001'')))
           ''highway-projects'' = Some c' \<and>
         map_of (own (projects c')) ''highway001'' = None) \<and>
   active (disk (snd (deleteProject stored_state ''highway-projects'' ''highway001'')))
     ''1758121257346-4650_highway_a1a_revised_7.24.glb'' = None \<and>
   backup (disk (snd (deleteProject stored_state ''highway-projects'' ''highway001'')))
     ''1758121257346-4650_highway_a1a_revised_7.24.glb'' = Some ''glTF''"
proof -
  let ?p = "\<lparr>filename = ''1758121257346-4650_highway_a1a_revised_7.24.glb'',
             description = ''A1A Highway Revision 7.24'', uploaded = ''2024-01-15''\<rparr>"
  let ?c = "\<lparr>name = ''Highway Projects Inc.'', contact = ''john@highwayproj.com'',
             projects = \<lparr>own = [(''highway001'', ?p)], proto = None\<rparr>\<rparr>"
  have c1: "map_of (clients initial_state) ''highway-projects'' = Some ?c"
    and c2: "map_of (clients stored_state) ''highway-projects'' = Some ?c"
    by (simp_all add: initial_state_def stored_state_def initial_clients_def)
  have p: "map_of (own (projects ?c)) ''highway001'' = Some ?p"
    by simp
  have "\<not> existsSync (disk initial_state) (filename ?p)"
    by (simp add: existsSync_def initial_state_def empty_disk_def)
  then have a: "status (fst (deleteProject initial_state ''highway-projects'' ''highway001'')) = 200 \<and>
      (\<exists>c'. map_of (clients (snd (deleteProject initial_state ''highway-projects'' ''highway001'')))
              ''highway-projects'' = Some c' \<and>
            map_of (own (projects c')) ''highway001'' = None) \<and>
      disk (snd (deleteProject initial_state ''highway-projects'' ''highway001'')) = empty_disk"
    using deleteProject_relocation [OF c1 p] by (simp add: initial_state_def)
  have "existsSync (disk stored_state) (filename ?p)" and "\<not> rename_fails (disk stored_state) (filename ?p)"
    by (simp_all add: existsSync_def stored_state_def)
  then have b: "status (fst (deleteProject stored_state ''highway-projects'' ''highway001'')) = 200 \<and>
      (\<exists>c'. map_of (clients (snd (deleteProject stored_state ''highway-projects'' ''highway001'')))
              ''highway-projects'' = Some c' \<and>
            map_of (own (projects c')) ''highway001'' = None) \<and>
      active (disk (snd (deleteProject stored_state ''highway-projects'' ''highway001'')))
        ''1758121257346-4650_highway_a1a_revised_7.24.glb'' = None \<and>
      backup (disk (snd (deleteProject stored_state ''highway-projects'' ''highway001'')))
        ''1758121257346-4650_highway_a1a_revised_7.24.glb'' = Some ''glTF''"
    using deleteProject_relocation [OF c2 p] by (simp add: stored_state_def)
  from a b show ?thesis
    by (simp only: simp_thms)
qed

text \<open>
  The claim as stated fails where the move itself fails: the file of \<^verbatim>\<open>highway001\<close> is
  in the active area, \<^verbatim>\<open>renameSync\<close> throws, the handler answers 500 from its
  \<^verbatim>\<open>catch\<close> block, and the project is still in the registry.
\<close>

theorem deleteProject_relocation_counterexample:
  "map_of (clients stuck_state) ''highway-projects'' = Some (snd (hd initial_clients)) \<and>
   map_of (own (projects (snd (hd initial_clients)))) ''highway001'' \<noteq> None \<and>
   existsSync (disk stuck_state) ''1758121257346-4650_highway_a1a_revised_7.24.glb'' \<and>
   deleteProject stuck_state ''highway-projects'' ''highway001'' =
     (Response 500 (ErrorBody ''Failed to move project to backup''), stuck_state)"
  by (simp add: deleteProject_def stuck_state_def initial_clients_def clients_get_def
      projects_get_def existsSync_def renameSync_def)

text \<open>
  A request to delete a project succeeds only for a client that is an own key of the
  registry, and then for a project that is an own key of the client, or for the key
  \<^verbatim>\<open>__proto__\<close> when an upload has replaced the prototype of the client's projects.
\<close>

lemma deleteProject_success:
  assumes "deleteProject st clientId projectId = (Response 200 b, st')"
  shows "\<exists>c. map_of (clients st) clientId = Some c \<and>
             (map_of (own (projects c)) projectId \<noteq> None \<or>
              (projectId = ''__proto__'' \<and> proto (projects c) \<noteq> None))"
proof (cases "clients_get (clients st) clientId")
  case CUndefined
  with assms show ?thesis
    by (simp add: deleteProject_def)
next
  case (CClient c)
  then have c: "map_of (clients st) clientId = Some c"
    by (simp add: clients_get_CClient)
  show ?thesis
  proof (cases "record_of (projects_get (projects c) projectId)")
    case None
    with assms CClient show ?thesis
      by (simp add: deleteProject_def split: if_splits)
  next
    case (Some p)
    then have "map_of (own (projects c)) projectId \<noteq> None \<or>
        (projectId = ''__proto__'' \<and> proto (projects c) \<noteq> None)"
      by (auto simp: record_of_projects_get)
    with c show ?thesis
      by blast
  qed
next
  case CBuiltin
  with assms show ?thesis
    by (simp add: deleteProject_def)
qed

text \<open>
  For a project that is an own key, where the keys of the client's projects are distinct
  (as the keys of an object are): the count goes down by exactly one, the answer carries
  the new count, and nothing else in the registry changes.
\<close>

lemma deleteProject_own_frame:
  assumes c: "map_of (clients st) clientId = Some c"
    and p: "map_of (own (projects c)) projectId = Some p"
    and d: "distinct (map fst (own (projects c)))"
    and ok: "deleteProject st clientId projectId = (Response 200 b, st')"
  shows "\<exists>c'. map_of (clients st') clientId = Some c' \<and>
              Suc (projectCount c') = projectCount c \<and>
              b = ProjectDeletedBody (''Project '' @ projectId @ '' moved to backup successfully'')
                    (projectCount c') \<and>
              map_of (own (projects c')) = (map_of (own (projects c)))(projectId := None) \<and>
              proto (projects c') = proto (projects c) \<and>
              name c' = name c \<and> contact c' = contact c \<and>
              (\<forall>k. k \<noteq> clientId \<longrightarrow> map_of (clients st') k = map_of (clients st) k)"
proof -
  from p have "projectId \<in> fst ` set (own (projects c))"
    by (metis map_of_eq_None_iff option.distinct(1))
  with d have "Suc (length (delete_prop projectId (own (projects c)))) = length (own (projects c))"
    by (rule length_delete_prop)
  with ok show ?thesis
    by (auto simp: deleteProject_own [OF c p] map_of_put_prop projects_delete_def projectCount_def
        map_of_delete_prop split: if_splits)
qed

text \<open>
  C6 at the failing input. An upload with the project id \<^verbatim>\<open>__proto__\<close> for the client
  of the initial registry is accepted and answers 200; the assignment of line 86 runs the
  inherited setter, so the client still has one project. Deleting the project
  \<^verbatim>\<open>__proto__\<close> then succeeds with status 200, moves the uploaded file to the backup
  area, and answers \<^verbatim>\<open>remainingProjects: 1\<close>: the count before and after is 1, and no
  project was removed.
\<close>

theorem deleteProject_proto_keeps_count:
  "fst (post_upload 1000 ''2024-01-15'' initial_state
         \<lparr>req_file = Some glb_file, body_clientId = Some ''highway-projects'',
          body_projectId = Some ''__proto__'', body_description = None\<rparr>) =
     Response 200
       (UploadBody ''Model uploaded and linked successfully'' ''1000-bridge_deck.glb''
          ''/uploads/1000-bridge_deck.glb'' ''highway-projects'' ''__proto__'') \<and>
   map (\<lambda>(k, c). (k, map fst (own (projects c))))
     (clients (snd (post_upload 1000 ''2024-01-15'' initial_state
         \<lparr>req_file = Some glb_file, body_clientId = Some ''highway-projects'',
          body_projectId = Some ''__proto__'', body_description = None\<rparr>))) =
     [(''highway-projects'', [''highway001''])] \<and>
   fst (deleteProject
          (snd (post_upload 1000 ''2024-01-15'' initial_state
             \<lparr>req_file = Some glb_file, body_clientId = Some ''highway-projects'',
              body_projectId = Some ''__proto__'', body_description = None\<rparr>))
          ''highway-projects'' ''__proto__'') =
     Response 200 (ProjectDeletedBody ''Project __proto__ moved to backup successfully'' 1) \<and>
   map (\<lambda>(k, c). (k, map fst (own (projects c))))
     (clients (snd (deleteProject
          (snd (post_upload 1000 ''2024-01-15'' initial_state
             \<lparr>req_file = Some glb_file, body_clientId = Some ''highway-projects'',
              body_projectId = Some ''__proto__'', body_description = None\<rparr>))
          ''highway-projects'' ''__proto__''))) =
     [(''highway-projects'', [''highway001''])]"
  by code_simp

section \<open>Deleting a client\<close>

text \<open>
  For an id that is no key of the registry and not the name of an inherited member, the
  two delete requests answer with different status classes.
\<close>

lemma delete_absent_client:
  assumes "clientId \<notin> fst ` set (clients st)" and "clientId \<notin> set object_prototype_names"
  shows "deleteClient st clientId = (Response 400 (ErrorBody ''Client not found''), st)"
    and "deleteProject st clientId projectId = (Response 404 (ErrorBody ''Client not found''), st)"
proof -
  from assms have "clients_get (clients st) clientId = CUndefined"
    by (simp add: clients_get_CUndefined)
  then show "deleteClient st clientId = (Response 400 (ErrorBody ''Client not found''), st)"
    and "deleteProject st clientId projectId = (Response 404 (ErrorBody ''Client not found''), st)"
    by (simp_all add: deleteClient_def deleteProject_def)
qed

text \<open>
  C8 at the failing input. The registry has no client \<^verbatim>\<open>constructor\<close>, but
  \<^verbatim>\<open>clients['constructor']\<close> is the inherited constructor function and is truthy: the
  request to delete the client ends in the \<^verbatim>\<open>catch\<close> block with status 500, not with
  400 and \<^verbatim>\<open>Client not found\<close>, and the request to delete a project of it throws outside
  the \<^verbatim>\<open>try\<close> block, which is status 500 as well, not 404.
\<close>

theorem delete_inherited_client_id:
  "''constructor'' \<notin> fst ` set (clients initial_state) \<and>
   deleteClient initial_state ''constructor'' =
     (Response 500 (ErrorBody ''Failed to move client projects to backup''), initial_state) \<and>
   deleteProject initial_state ''constructor'' ''highway001'' =
     (Response 500 (ErrorPage ''TypeError''), initial_state)"
proof -
  have "clients_get initial_clients ''constructor'' = CBuiltin"
    by code_simp
  then show ?thesis
    by (simp add: deleteClient_def deleteProject_def initial_state_def) (simp add: initial_clients_def)
qed

section \<open>Resolving a client name and a project\<close>

lemma findClientByName_case_insensitive:
  "toLowerCase n = toLowerCase n' \<Longrightarrow> findClientByName reg n = findClientByName reg n'"
  by (simp add: findClientByName_def)

lemma findClientByName_None:
  "findClientByName reg n = None \<longleftrightarrow> (\<forall>c\<in>snd ` set reg. toLowerCase (name c) \<noteq> toLowerCase n)"
  by (auto simp: findClientByName_def find_None_iff)

lemma findClientByName_Some:
  "findClientByName reg n = Some c \<Longrightarrow> c \<in> snd ` set reg \<and> toLowerCase (name c) = toLowerCase n"
  by (auto simp: findClientByName_def find_Some_iff)

text \<open>
  The three not-found answers, for a project id that is not the name of an inherited
  member of the client's projects.
\<close>

lemma resolve_client_not_found:
  assumes "\<forall>c\<in>snd ` set (clients st). toLowerCase (name c) \<noteq> toLowerCase n"
  shows "resolve st n pn = Response 404 (ErrorBody (''Client '' @ dquote @ n @ dquote @ '' not found''))"
proof -
  from assms have "findClientByName (clients st) n = None"
    by (simp only: findClientByName_None)
  then show ?thesis
    by (simp add: resolve_def)
qed

lemma resolve_project_not_found:
  assumes "findClientByName (clients st) n = Some c" and "projects_get (projects c) pn = PUndefined"
  shows "resolve st n pn =
    Response 404 (ErrorBody (''Project '' @ dquote @ pn @ dquote @ '' not found for '' @ name c))"
  using assms by (simp add: resolve_def)

lemma resolve_own_project:
  assumes "findClientByName (clients st) n = Some c" and "map_of (own (projects c)) pn = Some p"
  shows "resolve st n pn =
    (if existsSync (disk st) (filename p)
     then Response 200 (ModelBody (''/uploads/'' @ filename p) (name c) pn (description p))
     else Response 404 (ErrorBody ''Model file not found''))"
  using assms by (simp add: resolve_def projects_get_own)

text \<open>
  C7 at the failing input. The name matches the client of the initial registry, whose
  only project is \<^verbatim>\<open>highway001\<close>. For the project id \<^verbatim>\<open>constructor\<close> the lookup of
  line 245 yields the inherited constructor function, which is truthy and has no
  \<^verbatim>\<open>filename\<close>: \<^verbatim>\<open>path.join\<close> throws a TypeError that no handler catches, where
  the claim has a \<^verbatim>\<open>ProjectNotFound\<close> answer and never an exception.
\<close>

theorem resolve_inherited_project_id:
  "findClientByName (clients stored_state) ''HIGHWAY projects inc.'' = Some (snd (hd initial_clients)) \<and>
   map fst (own (projects (snd (hd initial_clients)))) = [''highway001''] \<and>
   resolve stored_state ''HIGHWAY projects inc.'' ''constructor'' = Response 500 (ErrorPage ''TypeError'') \<and>
   resolve stored_state ''HIGHWAY projects inc.'' ''highway002'' =
     Response 404
       (ErrorBody (''Project '' @ dquote @ ''highway002'' @ dquote @ '' not found for Highway Projects Inc.''))"
  by code_simp

section \<open>Every request keeps the registry well formed\<close>

lemma set_insert_index: "set (insert_index k v ps) = insert (k, v) (set ps)"
proof (induction ps)
  case Nil
  then show ?case by simp
next
  case (Cons p ps)
  obtain k' v' where p: "p = (k', v')"
    by (cases p)
  show ?case
  proof (cases "is_array_index k' \<and> int_of_string k' < int_of_string k")
    case True
    with p Cons.IH show ?thesis
      by (simp add: insert_commute)
  next
    case False
    then have "insert_index k v ((k', v') # ps) = (k, v) # (k', v') # ps"
      by auto
    with p show ?thesis
      by simp
  qed
qed

lemma values_put_prop: "snd ` set (put_prop k v ps) \<subseteq> insert v (snd ` set ps)"
proof (cases "map_of ps k")
  case None
  then show ?thesis
    by (auto simp: put_prop_def set_insert_index)
next
  case (Some a)
  then show ?thesis
    by (auto simp: put_prop_def)
qed

lemma wf_registry_initial: "wf_registry initial_clients"
  by (simp add: wf_registry_def initial_clients_def)

lemma wf_registry_put_prop:
  assumes "wf_registry reg" and "distinct (map fst (own (projects c)))"
  shows "wf_registry (put_prop k c reg)"
proof -
  have "c' \<in> snd ` set (put_prop k c reg) \<Longrightarrow> c' = c \<or> c' \<in> snd ` set reg" for c'
    using values_put_prop [of k c reg] by blast
  with assms show ?thesis
    unfolding wf_registry_def by (blast intro: distinct_put_prop)
qed

lemma wf_registry_delete_prop:
  assumes "wf_registry reg"
  shows "wf_registry (delete_prop k reg)"
proof -
  have "snd ` set (delete_prop k reg) \<subseteq> snd ` set reg"
    by (auto simp: delete_prop_def)
  with assms show ?thesis
    unfolding wf_registry_def by (blast intro: distinct_delete_prop)
qed

lemma wf_registry_client:
  "wf_registry reg \<Longrightarrow> map_of reg k = Some c \<Longrightarrow> distinct (map fst (own (projects c)))"
  by (force simp: wf_registry_def dest: map_of_SomeD)

lemma distinct_projects_set:
  "distinct (map fst (own po)) \<Longrightarrow> distinct (map fst (own (projects_set po k v)))"
  by (simp add: projects_set_def distinct_put_prop)

lemma wf_registry_createClient:
  assumes "wf_registry (clients st)"
  shows "wf_registry (clients (snd (createClient st nm ct)))"
  using assms by (auto simp: createClient_def wf_registry_put_prop split: option.splits)

lemma wf_registry_linkProject:
  assumes "wf_registry reg" and "linkProject today reg clientId projectId fname descr = Inr reg'"
  shows "wf_registry reg'"
proof -
  let ?new = "\<lparr>name = humanize clientId, contact = [], projects = \<lparr>own = [], proto = None\<rparr>\<rparr>"
  let ?reg1 = "if \<not> client_truthy (clients_get reg clientId) then put_prop clientId ?new reg else reg"
  have w1: "wf_registry ?reg1"
    using assms(1) by (simp add: wf_registry_put_prop)
  from assms(2) obtain c where c: "clients_get ?reg1 clientId = CClient c"
    by (cases "clients_get ?reg1 clientId") (simp_all add: linkProject_def Let_def del: client_truthy.simps)
  then have "distinct (map fst (own (projects c)))"
    using w1 by (simp add: clients_get_CClient wf_registry_client del: client_truthy.simps)
  then have "wf_registry (put_prop clientId
      (c\<lparr>projects := projects_set (projects c) projectId
          \<lparr>filename = fname, description = or_else descr (''Project '' @ projectId),
           uploaded = today\<rparr>\<rparr>) ?reg1)"
    using w1 by (simp add: wf_registry_put_prop distinct_projects_set del: client_truthy.simps)
  with assms(2) c show ?thesis
    by (simp add: linkProject_def Let_def del: client_truthy.simps)
qed

lemma wf_registry_post_upload:
  assumes "wf_registry (clients st)"
  shows "wf_registry (clients (snd (post_upload now today st req)))"
  using assms
  by (auto simp: post_upload_def wf_registry_linkProject
      split: prod.splits sum.splits option.splits)

lemma wf_registry_deleteProject:
  assumes "wf_registry (clients st)"
  shows "wf_registry (clients (snd (deleteProject st clientId projectId)))"
proof (cases "clients_get (clients st) clientId")
  case CUndefined
  with assms show ?thesis
    by (simp add: deleteProject_def)
next
  case (CClient c)
  with assms have "distinct (map fst (own (projects c)))"
    by (simp add: clients_get_CClient wf_registry_client)
  then have "distinct (map fst (own (projects_delete (projects c) projectId)))"
    by (simp add: projects_delete_def distinct_delete_prop)
  with assms have "wf_registry (put_prop clientId
      (c\<lparr>projects := projects_delete (projects c) projectId\<rparr>) (clients st))"
    by (simp add: wf_registry_put_prop)
  with assms CClient show ?thesis
    by (simp add: deleteProject_def split: option.splits sum.splits)
next
  case CBuiltin
  with assms show ?thesis
    by (simp add: deleteProject_def)
qed

lemma wf_registry_deleteClient:
  assumes "wf_registry (clients st)"
  shows "wf_registry (clients (snd (deleteClient st clientId)))"
  using assms
  by (auto simp: deleteClient_def wf_registry_delete_prop
      split: clientval.splits prod.splits option.splits)

section \<open>The scenario of the specification\<close>

text \<open>
  Create the client \<^verbatim>\<open>Acme Co\<close>, link the project \<^verbatim>\<open>p1\<close> with a file, list, resolve
  under the name in another case, delete the project, resolve again.
\<close>

lemma scenario_create:
  "fst (createClient initial_state (Some ''Acme Co'') None) =
     Response 200 (ClientAddedBody ''Client added successfully'' ''acme-co'')"
  by code_simp

lemma scenario_upload:
  "fst (post_upload 1000 ''2024-01-15'' after_create
          \<lparr>req_file = Some glb_file, body_clientId = Some ''acme-co'',
           body_projectId = Some ''p1'', body_description = None\<rparr>) =
     Response 200
       (UploadBody ''Model uploaded and linked successfully'' ''1000-bridge_deck.glb''
          ''/uploads/1000-bridge_deck.glb'' ''acme-co'' ''p1'') \<and>
   map (\<lambda>(k, c). (k, projectCount c)) (clients after_upload) =
     [(''highway-projects'', 1), (''acme-co'', 1)]"
  by code_simp

lemma scenario_resolve:
  "resolve after_upload ''acme co'' ''p1'' =
     Response 200 (ModelBody ''/uploads/1000-bridge_deck.glb'' ''Acme Co'' ''p1'' ''Project p1'')"
  by code_simp

lemma scenario_delete:
  "fst (deleteProject after_upload ''acme-co'' ''p1'') =
     Response 200 (ProjectDeletedBody ''Project p1 moved to backup successfully'' 0) \<and>
   active (disk after_delete) ''1000-bridge_deck.glb'' = None \<and>
   backup (disk after_delete) ''1000-bridge_deck.glb'' = Some ''glTF'' \<and>
   resolve after_delete ''acme co'' ''p1'' =
     Response 404 (ErrorBody (''Project '' @ dquote @ ''p1'' @ dquote @ '' not found for Acme Co''))"
  by code_simp

end
